theory Spec2Isabelle
  imports Complex_Main "HOL-Library.Sublist" "HOL-Library.AList"
begin

section \<open>Python values and string primitives\<close>

text \<open>
  The values a lead dictionary can hold. \<^verbatim>\<open>csv.DictReader\<close> produces strings, \<^verbatim>\<open>None\<close>
  (its \<^verbatim>\<open>restval\<close>, for a row shorter than the header) and lists of strings (stored under
  its \<^verbatim>\<open>restkey\<close>, which is \<^verbatim>\<open>None\<close>, for a row longer than the header). A dictionary is
  an association list in insertion order with distinct keys; a key is a string or
  \<^verbatim>\<open>None\<close>.
\<close>

datatype pyval = PStr string | PNone | PList "string list"

type_synonym pykey = "string option"

type_synonym pydict = "(pykey \<times> pyval) list"

text \<open>
  The exceptions of the modelled code. \<open>FileNotFoundError\<close> carries its file name or
  message; the next five are the other failures of \<^verbatim>\<open>open\<close>; \<open>CsvError\<close> (\<^verbatim>\<open>csv.Error\<close>) and
  \<open>UnicodeDecodeError\<close> come from reading a file; \<open>OverflowError\<close> and
  \<open>ZeroDivisionError\<close> come from the division of integers.
\<close>

datatype error =
    FileNotFoundError string
  | NotADirectoryError
  | IsADirectoryError
  | PermissionError
  | ValueError
  | OSError
  | CsvError
  | UnicodeDecodeError
  | TypeError
  | OverflowError
  | ZeroDivisionError

text \<open>Decimal rendering of a natural number, as \<^verbatim>\<open>str(n)\<close> and \<^verbatim>\<open>f"{n}"\<close> give it.\<close>

function str_nat :: "nat \<Rightarrow> string" where
  "str_nat n =
     (if n < 10 then [''0123456789'' ! n]
      else str_nat (n div 10) @ [''0123456789'' ! (n mod 10)])"
  by pat_completeness auto
termination
  by (relation "measure (\<lambda>n. n)") auto

declare str_nat.simps [simp del]

text \<open>
  \<^verbatim>\<open>repr\<close> of a string, needed for \<^verbatim>\<open>str\<close> of a list. Characters are code points
  below 256. The quote is \<^verbatim>\<open>"\<close> when the string holds \<^verbatim>\<open>'\<close> and no \<^verbatim>\<open>"\<close>, and \<^verbatim>\<open>'\<close>
  otherwise; the quote and the backslash are escaped, as are the control characters.
\<close>

definition hex2 :: "nat \<Rightarrow> string" where
  "hex2 n = [''0123456789abcdef'' ! (n div 16 mod 16), ''0123456789abcdef'' ! (n mod 16)]"

definition repr_char :: "char \<Rightarrow> char \<Rightarrow> string" where
  "repr_char q c =
     (if c = q \<or> c = CHR 0x5C then [CHR 0x5C, c]
      else if c = CHR 0x09 then [CHR 0x5C, CHR ''t'']
      else if c = CHR 0x0A then [CHR 0x5C, CHR ''n'']
      else if c = CHR 0x0D then [CHR 0x5C, CHR ''r'']
      else if (of_char c :: nat) < 32 \<or> (of_char c :: nat) = 127
              \<or> (128 \<le> (of_char c :: nat) \<and> (of_char c :: nat) \<le> 160)
              \<or> (of_char c :: nat) = 173
        then [CHR 0x5C, CHR ''x''] @ hex2 (of_char c)
      else [c])"

definition repr_str :: "string \<Rightarrow> string" where
  "repr_str s =
     (let q = (if CHR 0x27 \<in> set s \<and> CHR 0x22 \<notin> set s then CHR 0x22 else CHR 0x27)
      in [q] @ concat (map (repr_char q) s) @ [q])"

fun join_str :: "string \<Rightarrow> string list \<Rightarrow> string" where
  "join_str sep [] = []"
| "join_str sep [x] = x"
| "join_str sep (x # y # ys) = x @ sep @ join_str sep (y # ys)"

fun py_str :: "pyval \<Rightarrow> string" where
  "py_str (PStr s) = s"
| "py_str PNone = ''None''"
| "py_str (PList xs) = ''['' @ join_str '', '' (map repr_str xs) @ '']''"

text \<open>A key formatted into an f-string: \<^verbatim>\<open>None\<close> prints as \<^verbatim>\<open>None\<close>.\<close>

fun key_str :: "pykey \<Rightarrow> string" where
  "key_str None = ''None''"
| "key_str (Some s) = s"

text \<open>
  \<^verbatim>\<open>str.replace(old, new)\<close>: the non-overlapping occurrences of \<^verbatim>\<open>old\<close>, found from
  left to right, are replaced by \<^verbatim>\<open>new\<close>. For an empty \<^verbatim>\<open>old\<close> Python inserts \<^verbatim>\<open>new\<close>
  before every character and at the end.
\<close>

function replace_from :: "string \<Rightarrow> string \<Rightarrow> string \<Rightarrow> string" where
  "replace_from old new [] = []"
| "replace_from old new (c # cs) =
     (if old \<noteq> [] \<and> prefix old (c # cs)
      then new @ replace_from old new (drop (length old) (c # cs))
      else c # replace_from old new cs)"
  by pat_completeness auto
termination
  by (relation "measure (\<lambda>(old, new, s). length s)") auto

definition replace :: "string \<Rightarrow> string \<Rightarrow> string \<Rightarrow> string" where
  "replace s old new =
     (if old = [] then new @ concat (map (\<lambda>c. c # new) s) else replace_from old new s)"

text \<open>\<^verbatim>\<open>sub in s\<close> on strings.\<close>

fun contains :: "string \<Rightarrow> string \<Rightarrow> bool" where
  "contains sub [] = (sub = [])"
| "contains sub (c # cs) = (prefix sub (c # cs) \<or> contains sub cs)"

section \<open>Template renderer (send_campaign.py)\<close>

record EmailTemplate =
  subject :: string
  body :: string
  delay_days :: int

text \<open>
  The dataclass declares the three typed fields as \<^verbatim>\<open>str\<close>, but \<^verbatim>\<open>_load_leads\<close> stores what
  \<^verbatim>\<open>row.get\<close> returns, which is \<^verbatim>\<open>None\<close> for a column the row is too short to fill; so
  the fields hold Python values. \<^verbatim>\<open>extra\<close> defaults to \<^verbatim>\<open>None\<close>.
\<close>

record Lead =
  email :: pyval
  first_name :: pyval
  company_name :: pyval
  extra :: "pydict option"

text \<open>
  \<^verbatim>\<open>result.replace(old, v)\<close> with \<^verbatim>\<open>v\<close> taken from a typed field: Python raises
  \<^verbatim>\<open>TypeError\<close> when \<^verbatim>\<open>v\<close> is not a string.
\<close>

fun replace_field :: "string \<Rightarrow> string \<Rightarrow> pyval \<Rightarrow> error + string" where
  "replace_field s old (PStr v) = Inr (replace s old v)"
| "replace_field s old v = Inl TypeError"

fun replace_extra :: "string \<Rightarrow> pydict \<Rightarrow> string" where
  "replace_extra result [] = result"
| "replace_extra result ((key, v) # kvs) =
     replace_extra (replace result (''{{'' @ key_str key @ ''}}'') (py_str v)) kvs"

definition personalize :: "string \<Rightarrow> Lead \<Rightarrow> error + string" where
  "personalize template lead =
     (case replace_field template ''{{first_name}}'' (first_name lead) of
        Inl e \<Rightarrow> Inl e
      | Inr r1 \<Rightarrow>
     (case replace_field r1 ''{{company_name}}'' (company_name lead) of
        Inl e \<Rightarrow> Inl e
      | Inr r2 \<Rightarrow>
     (case replace_field r2 ''{{email}}'' (email lead) of
        Inl e \<Rightarrow> Inl e
      | Inr r3 \<Rightarrow>
     (case extra lead of
        None \<Rightarrow> Inr r3
      | Some [] \<Rightarrow> Inr r3
      | Some kvs \<Rightarrow> Inr (replace_extra r3 kvs)))))"

section \<open>Campaigns (send_campaign.py)\<close>

text \<open>
  A reading of the clock, \<^verbatim>\<open>datetime.now()\<close>, with the three renderings the module uses:
  \<^verbatim>\<open>strftime('%Y%m%d_%H%M%S')\<close>, \<^verbatim>\<open>isoformat()\<close> and \<^verbatim>\<open>str\<close> (what \<^verbatim>\<open>json.dump\<close> falls
  back to through \<^verbatim>\<open>default=str\<close>). The year is one of four digits, as the clock gives.
\<close>

record datetime =
  year :: nat
  month :: nat
  day :: nat
  hour :: nat
  minute :: nat
  second :: nat
  microsecond :: nat

definition zpad :: "nat \<Rightarrow> nat \<Rightarrow> string" where
  "zpad w n = replicate (w - length (str_nat n)) CHR ''0'' @ str_nat n"

definition strftime_stamp :: "datetime \<Rightarrow> string" where
  "strftime_stamp t =
     zpad 4 (year t) @ zpad 2 (month t) @ zpad 2 (day t) @ ''_''
     @ zpad 2 (hour t) @ zpad 2 (minute t) @ zpad 2 (second t)"

definition isoformat_sep :: "string \<Rightarrow> datetime \<Rightarrow> string" where
  "isoformat_sep sep t =
     zpad 4 (year t) @ ''-'' @ zpad 2 (month t) @ ''-'' @ zpad 2 (day t) @ sep
     @ zpad 2 (hour t) @ '':'' @ zpad 2 (minute t) @ '':'' @ zpad 2 (second t)
     @ (if microsecond t = 0 then [] else ''.'' @ zpad 6 (microsecond t))"

definition isoformat :: "datetime \<Rightarrow> string" where
  "isoformat t = isoformat_sep ''T'' t"

definition str_datetime :: "datetime \<Rightarrow> string" where
  "str_datetime t = isoformat_sep '' '' t"

text \<open>
  The campaign object. \<^verbatim>\<open>id\<close> is named \<open>campaign_id\<close> here. \<^verbatim>\<open>started_at\<close> is an attribute
  that does not exist until \<^verbatim>\<open>start\<close> assigns it: \<open>None\<close> is the missing attribute.
\<close>

record Campaign =
  campaign_id :: string
  name :: string
  leads_csv :: "string option"
  mailboxes :: "string list"
  daily_limit :: int
  sequence :: "EmailTemplate list"
  status :: string
  created_at :: datetime
  leads :: "Lead list"
  started_at :: "datetime option"

text \<open>
  The JSON document \<^verbatim>\<open>_save\<close> writes. \<^verbatim>\<open>json.dump\<close> followed by \<^verbatim>\<open>json.load\<close> gives back
  the strings, integers, lists and objects it was given, so the stored document is the
  \<^verbatim>\<open>state\<close> dictionary itself, with \<^verbatim>\<open>started_at\<close> turned into a string by \<^verbatim>\<open>default=str\<close>.
  The campaign directory maps a file name to its document.
\<close>

record state =
  st_id :: string
  st_name :: string
  st_status :: string
  st_created_at :: string
  st_started_at :: "string option"
  st_leads_count :: nat
  st_mailboxes :: "string list"
  st_daily_limit :: int
  st_sequence :: "EmailTemplate list"

type_synonym campaign_dir = "string \<rightharpoonup> state"

text \<open>
  The lead files. A path with no entry names no file: \<^verbatim>\<open>open\<close> raises
  \<open>FileNotFoundError\<close>. An entry is either \<open>Unopenable e\<close>, a path on which \<^verbatim>\<open>open\<close> raises
  \<open>e\<close> (\<open>NotADirectoryError\<close> for a path through a file, \<open>IsADirectoryError\<close>,
  \<open>PermissionError\<close>, \<open>ValueError\<close> for an embedded null character, \<open>OSError\<close> for a name
  too long), or \<open>Readable items\<close>, a file that opens, with what \<^verbatim>\<open>csv.reader\<close> gives when it is
  asked for the next row, in order: a row of fields (an empty file has no rows, a blank
  line is the row \<open>[]\<close>), or an exception (\<open>CsvError\<close> for a field over the size limit,
  \<open>UnicodeDecodeError\<close> for bytes that do not decode), after which nothing more is read.
\<close>

datatype reader_item = Row "string list" | Raises error

datatype entry = Unopenable error | Readable "reader_item list"

type_synonym csv_files = "string \<rightharpoonup> entry"

definition open_csv :: "csv_files \<Rightarrow> string \<Rightarrow> error + reader_item list" where
  "open_csv files csv_path =
     (case files csv_path of
        None \<Rightarrow> Inl (FileNotFoundError csv_path)
      | Some (Unopenable e) \<Rightarrow> Inl e
      | Some (Readable items) \<Rightarrow> Inr items)"

text \<open>The rows the reader gives before it stops, and the exception that stopped it.\<close>

fun read_all :: "reader_item list \<Rightarrow> string list list \<times> error option" where
  "read_all [] = ([], None)"
| "read_all (Raises e # items) = ([], Some e)"
| "read_all (Row r # items) = (let (rows, err) = read_all items in (r # rows, err))"

text \<open>
  \<^verbatim>\<open>csv.DictReader\<close>: the first row is the header, blank rows after it are skipped, and
  each other row becomes \<^verbatim>\<open>dict(zip(fieldnames, row))\<close>, completed with the rest of a
  longer row under \<^verbatim>\<open>None\<close>, or with \<^verbatim>\<open>None\<close> for the columns a shorter row lacks.
\<close>

definition row_dict :: "string list \<Rightarrow> string list \<Rightarrow> pydict" where
  "row_dict fieldnames row =
     (let d = fold (\<lambda>(k, v) d. AList.update (Some k) (PStr v) d) (zip fieldnames row) [];
          lf = length fieldnames; lr = length row
      in if lf < lr then AList.update None (PList (drop lf row)) d
         else if lf > lr then fold (\<lambda>key d. AList.update (Some key) PNone d) (drop lr fieldnames) d
         else d)"

fun dict_reader :: "string list list \<Rightarrow> pydict list" where
  "dict_reader [] = []"
| "dict_reader (fieldnames # rows) = map (row_dict fieldnames) (filter (\<lambda>row. row \<noteq> []) rows)"

text \<open>\<^verbatim>\<open>row.get(key, "")\<close>\<close>

definition dict_get :: "pydict \<Rightarrow> string \<Rightarrow> pyval" where
  "dict_get row key = (case map_of row (Some key) of Some v \<Rightarrow> v | None \<Rightarrow> PStr [])"

definition lead_of_row :: "pydict \<Rightarrow> Lead" where
  "lead_of_row row =
     \<lparr>email = dict_get row ''email'',
      first_name = dict_get row ''first_name'',
      company_name = dict_get row ''company_name'',
      extra = Some row\<rparr>"

text \<open>
  \<^verbatim>\<open>_load_leads\<close> returns the exception that ended it, if any, and the campaign as the
  call leaves it: the leads of the rows read before an exception are already appended.
\<close>

definition load_leads :: "csv_files \<Rightarrow> Campaign \<Rightarrow> string \<Rightarrow> error option \<times> Campaign" where
  "load_leads files self csv_path =
     (case open_csv files csv_path of
        Inl e \<Rightarrow> (Some e, self)
      | Inr items \<Rightarrow>
          let (rows, err) = read_all items
          in (err, self\<lparr>leads := leads self @ map lead_of_row (dict_reader rows)\<rparr>))"

text \<open>
  \<^verbatim>\<open>__init__\<close>, with the two readings of the clock it takes (one for the id, one for
  \<^verbatim>\<open>created_at\<close>). An absent or empty \<^verbatim>\<open>leads_csv\<close> loads nothing; an exception of
  \<^verbatim>\<open>_load_leads\<close> leaves the constructor, and no campaign is built.
\<close>

definition init :: "csv_files \<Rightarrow> datetime \<Rightarrow> datetime \<Rightarrow> string \<Rightarrow> string option
    \<Rightarrow> string list option \<Rightarrow> int \<Rightarrow> error + Campaign" where
  "init files t_id t_created nm csv mbs limit =
     (let self = \<lparr>campaign_id = ''campaign_'' @ strftime_stamp t_id,
                  name = nm,
                  leads_csv = csv,
                  mailboxes = (case mbs of None \<Rightarrow> [] | Some m \<Rightarrow> m),
                  daily_limit = limit,
                  sequence = [],
                  status = ''draft'',
                  created_at = t_created,
                  leads = [],
                  started_at = None\<rparr>
      in case csv of
           None \<Rightarrow> Inr self
         | Some path \<Rightarrow>
             if path = [] then Inr self
             else (case load_leads files self path of
                     (None, self') \<Rightarrow> Inr self'
                   | (Some e, self') \<Rightarrow> Inl e))"


text \<open>
  \<^verbatim>\<open>validate\<close>. The inner loop over \<^verbatim>\<open>self.leads[:5]\<close> stops at the first lead whose
  rendering still holds \<^verbatim>\<open>{{\<close>; the outer loop numbers the steps from 1.
\<close>

fun unresolved_in :: "string \<Rightarrow> Lead list \<Rightarrow> error + bool" where
  "unresolved_in b [] = Inr False"
| "unresolved_in b (lead # ls) =
     (case personalize b lead of
        Inl e \<Rightarrow> Inl e
      | Inr personalized \<Rightarrow>
          if contains ''{{'' personalized then Inr True else unresolved_in b ls)"

fun check_sequence :: "nat \<Rightarrow> EmailTemplate list \<Rightarrow> Lead list \<Rightarrow> string list
    \<Rightarrow> error + string list" where
  "check_sequence i [] ls errors = Inr errors"
| "check_sequence i (e # es) ls errors =
     (case unresolved_in (body e) (take 5 ls) of
        Inl x \<Rightarrow> Inl x
      | Inr found \<Rightarrow>
          check_sequence (i + 1) es ls
            (if found then errors @ [''Email '' @ str_nat (i + 1) @ '' has unresolved variables'']
             else errors))"

definition validate :: "Campaign \<Rightarrow> error + string list" where
  "validate self =
     (let errors = [];
          errors = (if leads self = [] then errors @ [''No leads loaded''] else errors);
          errors = (if sequence self = [] then errors @ [''No emails in sequence''] else errors);
          errors = (if mailboxes self = [] then errors @ [''No mailboxes configured''] else errors)
      in check_sequence 0 (sequence self) (leads self) errors)"

definition save :: "campaign_dir \<Rightarrow> Campaign \<Rightarrow> campaign_dir" where
  "save dir self =
     dir(campaign_id self @ ''.json'' \<mapsto>
       \<lparr>st_id = campaign_id self,
        st_name = name self,
        st_status = status self,
        st_created_at = isoformat (created_at self),
        st_started_at = map_option str_datetime (started_at self),
        st_leads_count = length (leads self),
        st_mailboxes = mailboxes self,
        st_daily_limit = daily_limit self,
        st_sequence = sequence self\<rparr>)"

text \<open>The dictionary \<^verbatim>\<open>start\<close> returns.\<close>

datatype start_result = StartError "string list" | Started string

definition start :: "campaign_dir \<Rightarrow> datetime \<Rightarrow> Campaign
    \<Rightarrow> error + (start_result \<times> Campaign \<times> campaign_dir)" where
  "start dir now self =
     (case validate self of
        Inl e \<Rightarrow> Inl e
      | Inr errors \<Rightarrow>
          if errors \<noteq> [] then Inr (StartError errors, self, dir)
          else
            let self' = self\<lparr>status := ''active'', started_at := Some now\<rparr>
            in Inr (Started (campaign_id self'), self', save dir self'))"

definition pause :: "campaign_dir \<Rightarrow> Campaign \<Rightarrow> Campaign \<times> campaign_dir" where
  "pause dir self = (let self' = self\<lparr>status := ''paused''\<rparr> in (self', save dir self'))"

definition resume :: "campaign_dir \<Rightarrow> Campaign \<Rightarrow> Campaign \<times> campaign_dir" where
  "resume dir self = (let self' = self\<lparr>status := ''active''\<rparr> in (self', save dir self'))"

text \<open>
  \<^verbatim>\<open>Campaign.load\<close>: a new object built by \<^verbatim>\<open>__init__\<close> from the stored name, then five
  attributes assigned from the document.
\<close>

definition load :: "csv_files \<Rightarrow> campaign_dir \<Rightarrow> datetime \<Rightarrow> datetime \<Rightarrow> string
    \<Rightarrow> error + Campaign" where
  "load files dir t_id t_created cid =
     (case dir (cid @ ''.json'') of
        None \<Rightarrow> Inl (FileNotFoundError (cid @ ''.json''))
      | Some st \<Rightarrow>
          (case init files t_id t_created (st_name st) None None 50 of
             Inl e \<Rightarrow> Inl e
           | Inr campaign \<Rightarrow>
               Inr (campaign\<lparr>campaign_id := st_id st,
                             status := st_status st,
                             mailboxes := st_mailboxes st,
                             daily_limit := st_daily_limit st,
                             sequence := st_sequence st\<rparr>)))"

section \<open>Warmup scheduler (warmup_account.py)\<close>

text \<open>
  A schedule entry; the fields \<^verbatim>\<open>day\<close>, \<^verbatim>\<open>daily_limit\<close> and \<^verbatim>\<open>reply_rate\<close> carry the prefix
  \<open>ws_\<close>. The reply rates are decimal literals that are only stored and returned.
\<close>

record WarmupSchedule =
  ws_day :: int
  ws_daily_limit :: int
  ws_reply_rate :: real

definition DEFAULT_SCHEDULE :: "WarmupSchedule list" where
  "DEFAULT_SCHEDULE =
     [\<lparr>ws_day = 1, ws_daily_limit = 5, ws_reply_rate = 1.0\<rparr>,
      \<lparr>ws_day = 2, ws_daily_limit = 5, ws_reply_rate = 1.0\<rparr>,
      \<lparr>ws_day = 3, ws_daily_limit = 5, ws_reply_rate = 1.0\<rparr>,
      \<lparr>ws_day = 4, ws_daily_limit = 15, ws_reply_rate = 0.8\<rparr>,
      \<lparr>ws_day = 5, ws_daily_limit = 15, ws_reply_rate = 0.8\<rparr>,
      \<lparr>ws_day = 6, ws_daily_limit = 15, ws_reply_rate = 0.8\<rparr>,
      \<lparr>ws_day = 7, ws_daily_limit = 15, ws_reply_rate = 0.8\<rparr>,
      \<lparr>ws_day = 8, ws_daily_limit = 30, ws_reply_rate = 0.6\<rparr>,
      \<lparr>ws_day = 14, ws_daily_limit = 40, ws_reply_rate = 0.4\<rparr>,
      \<lparr>ws_day = 21, ws_daily_limit = 40, ws_reply_rate = 0.3\<rparr>]"

definition get_schedule_for_day :: "int \<Rightarrow> WarmupSchedule" where
  "get_schedule_for_day d =
     (case find (\<lambda>schedule. d \<ge> ws_day schedule) (rev DEFAULT_SCHEDULE) of
        Some schedule \<Rightarrow> schedule
      | None \<Rightarrow> DEFAULT_SCHEDULE ! 0)"












section \<open>Sample data\<close>

text \<open>
  A two-row lead file with its header, a one-step sequence and one mailbox: the campaign
  the module's usage line describes, used where a property is evaluated on concrete data.
\<close>

definition sample_rows :: "string list list" where
  "sample_rows =
     [[''email'', ''first_name'', ''company_name''],
      [''alice@acme.com'', ''alice'', ''Acme''],
      [''bob@widgets.com'', ''bob'', ''Widgets'']]"

definition sample_time :: datetime where
  "sample_time = \<lparr>year = 2026, month = 1, day = 5, hour = 9, minute = 0, second = 0,
                   microsecond = 0\<rparr>"

definition sample_later :: datetime where
  "sample_later = \<lparr>year = 2026, month = 1, day = 6, hour = 10, minute = 30, second = 0,
                    microsecond = 0\<rparr>"

definition sample_campaign :: Campaign where
  "sample_campaign =
     \<lparr>campaign_id = ''campaign_20260105_090000'',
      name = ''Q1 Outreach'',
      leads_csv = Some ''leads.csv'',
      mailboxes = [''john@acmeleads.com''],
      daily_limit = 50,
      sequence = [\<lparr>subject = ''Hello'', body = ''Hi {{first_name}} from {{company_name}}'',
                   delay_days = 0\<rparr>],
      status = ''draft'',
      created_at = sample_time,
      leads = map lead_of_row (dict_reader sample_rows),
      started_at = None\<rparr>"



section \<open>Specification-side definitions\<close>

text \<open>A lead as the data model describes it: the three typed fields hold strings.\<close>

fun is_str :: "pyval \<Rightarrow> bool" where
  "is_str (PStr s) = True"
| "is_str v = False"

definition typed_lead :: "Lead \<Rightarrow> bool" where
  "typed_lead lead = (is_str (first_name lead) \<and> is_str (company_name lead) \<and> is_str (email lead))"





text \<open>
  The keys a lead recognises: the three typed field names and the keys of \<open>extra\<close>, as
  they are written between the braces.
\<close>

definition extra_items :: "Lead \<Rightarrow> pydict" where
  "extra_items lead = (case extra lead of None \<Rightarrow> [] | Some kvs \<Rightarrow> kvs)"

definition typed_names :: "string list" where
  "typed_names = [''first_name'', ''company_name'', ''email'']"

definition recognized_keys :: "Lead \<Rightarrow> string list" where
  "recognized_keys lead = typed_names @ map (\<lambda>(key, v). key_str key) (extra_items lead)"

text \<open>
  A template holds only recognised placeholders when every \<^verbatim>\<open>{{\<close> in it opens
  \<^verbatim>\<open>{{key}}\<close> for one of the given keys.
\<close>

fun placeholders_ok :: "string list \<Rightarrow> string \<Rightarrow> bool" where
  "placeholders_ok keys [] = True"
| "placeholders_ok keys (c # cs) =
     ((if prefix ''{{'' (c # cs)
       then list_ex (\<lambda>k. prefix (''{{'' @ k @ ''}}'') (c # cs)) keys else True)
      \<and> placeholders_ok keys cs)"

definition only_recognized :: "string \<Rightarrow> Lead \<Rightarrow> bool" where
  "only_recognized template lead = placeholders_ok (recognized_keys lead) template"

text \<open>
  No opening brace in the values of a lead (typed fields and \<open>extra\<close>, as \<^verbatim>\<open>str\<close> prints
  them); no opening brace in the keys of \<open>extra\<close>.
\<close>

definition brace_free_values :: "Lead \<Rightarrow> bool" where
  "brace_free_values lead =
     (list_all (\<lambda>v. CHR ''{'' \<notin> set (py_str v)) [first_name lead, company_name lead, email lead]
      \<and> list_all (\<lambda>(key, v). CHR ''{'' \<notin> set (py_str v)) (extra_items lead))"

definition open_brace_free_keys :: "Lead \<Rightarrow> bool" where
  "open_brace_free_keys lead =
     list_all (\<lambda>(key, v). CHR ''{'' \<notin> set (key_str key)) (extra_items lead)"

text \<open>The lead without the entries of \<open>extra\<close> whose key is a typed field name.\<close>

definition drop_conflicting :: "Lead \<Rightarrow> Lead" where
  "drop_conflicting lead =
     lead\<lparr>extra := map_option (filter (\<lambda>(key, v). key_str key \<notin> set typed_names)) (extra lead)\<rparr>"

section \<open>Properties of the warmup scheduler\<close>

lemma get_schedule_for_day_bands:
  "get_schedule_for_day d =
     (if d \<ge> 21 then DEFAULT_SCHEDULE ! 9 else if d \<ge> 14 then DEFAULT_SCHEDULE ! 8
      else if d \<ge> 8 then DEFAULT_SCHEDULE ! 7 else if d \<ge> 7 then DEFAULT_SCHEDULE ! 6
      else if d \<ge> 6 then DEFAULT_SCHEDULE ! 5 else if d \<ge> 5 then DEFAULT_SCHEDULE ! 4
      else if d \<ge> 4 then DEFAULT_SCHEDULE ! 3 else if d \<ge> 3 then DEFAULT_SCHEDULE ! 2
      else if d \<ge> 2 then DEFAULT_SCHEDULE ! 1 else DEFAULT_SCHEDULE ! 0)"
  by (simp add: get_schedule_for_day_def DEFAULT_SCHEDULE_def)

lemma get_schedule_for_day_mem: "get_schedule_for_day d \<in> set DEFAULT_SCHEDULE"
  unfolding get_schedule_for_day_bands by (simp add: DEFAULT_SCHEDULE_def)

lemma get_schedule_for_day_le: "1 \<le> d \<Longrightarrow> ws_day (get_schedule_for_day d) \<le> d"
  unfolding get_schedule_for_day_bands by (simp add: DEFAULT_SCHEDULE_def)

lemma get_schedule_for_day_greatest:
  "s \<in> set DEFAULT_SCHEDULE \<Longrightarrow> ws_day s \<le> d \<Longrightarrow> ws_day s \<le> ws_day (get_schedule_for_day d)"
  unfolding get_schedule_for_day_bands by (auto simp add: DEFAULT_SCHEDULE_def)

lemma DEFAULT_SCHEDULE_day_inj:
  "s \<in> set DEFAULT_SCHEDULE \<Longrightarrow> s' \<in> set DEFAULT_SCHEDULE \<Longrightarrow> ws_day s = ws_day s' \<Longrightarrow> s = s'"
  by (auto simp add: DEFAULT_SCHEDULE_def)

lemma get_schedule_for_day_floor:
  "\<forall>s\<in>set DEFAULT_SCHEDULE. d < ws_day s \<Longrightarrow> get_schedule_for_day d = DEFAULT_SCHEDULE ! 0"
  unfolding get_schedule_for_day_bands by (simp add: DEFAULT_SCHEDULE_def)

lemma DEFAULT_SCHEDULE_first_least:
  "s \<in> set DEFAULT_SCHEDULE \<Longrightarrow> ws_day (DEFAULT_SCHEDULE ! 0) \<le> ws_day s"
  by (auto simp add: DEFAULT_SCHEDULE_def)

text \<open>
  Claim C3. For every day \<open>d \<ge> 1\<close>, \<open>get_schedule_for_day d\<close> is the entry of the default
  schedule with the largest day threshold that is at most \<open>d\<close> (an entry of the schedule
  has that property exactly when it is the result); when \<open>d\<close> is below every threshold
  the result is the first entry, which has the smallest threshold. Day 1 gives limit 5
  and reply rate 1.0, day 10 gives 30 and 0.6, days 21 and 100 give 40 and 0.3.
\<close>

theorem schedule_for_day_resolution:
  "(1 \<le> d \<longrightarrow>
      get_schedule_for_day d \<in> set DEFAULT_SCHEDULE
      \<and> (\<forall>s\<in>set DEFAULT_SCHEDULE.
            (ws_day s \<le> d \<and> (\<forall>s'\<in>set DEFAULT_SCHEDULE. ws_day s' \<le> d \<longrightarrow> ws_day s' \<le> ws_day s))
            = (s = get_schedule_for_day d)))
   \<and> ((\<forall>s\<in>set DEFAULT_SCHEDULE. d < ws_day s) \<longrightarrow>
        get_schedule_for_day d = DEFAULT_SCHEDULE ! 0
        \<and> (\<forall>s\<in>set DEFAULT_SCHEDULE. ws_day (DEFAULT_SCHEDULE ! 0) \<le> ws_day s))
   \<and> (ws_daily_limit (get_schedule_for_day 1), ws_reply_rate (get_schedule_for_day 1)) = (5, 1.0)
   \<and> (ws_daily_limit (get_schedule_for_day 10), ws_reply_rate (get_schedule_for_day 10)) = (30, 0.6)
   \<and> (ws_daily_limit (get_schedule_for_day 21), ws_reply_rate (get_schedule_for_day 21)) = (40, 0.3)
   \<and> (ws_daily_limit (get_schedule_for_day 100), ws_reply_rate (get_schedule_for_day 100)) = (40, 0.3)"
proof (intro conjI impI ballI)
  show "get_schedule_for_day d \<in> set DEFAULT_SCHEDULE"
    by (rule get_schedule_for_day_mem)
next
  fix s assume d: "1 \<le> d" and s: "s \<in> set DEFAULT_SCHEDULE"
  show "(ws_day s \<le> d \<and> (\<forall>s'\<in>set DEFAULT_SCHEDULE. ws_day s' \<le> d \<longrightarrow> ws_day s' \<le> ws_day s))
        = (s = get_schedule_for_day d)"
  proof
    assume a: "ws_day s \<le> d
      \<and> (\<forall>s'\<in>set DEFAULT_SCHEDULE. ws_day s' \<le> d \<longrightarrow> ws_day s' \<le> ws_day s)"
    have "ws_day s \<le> ws_day (get_schedule_for_day d)"
      using get_schedule_for_day_greatest s a by blast
    moreover have "ws_day (get_schedule_for_day d) \<le> ws_day s"
      using a get_schedule_for_day_mem get_schedule_for_day_le d by blast
    ultimately show "s = get_schedule_for_day d"
      using DEFAULT_SCHEDULE_day_inj s get_schedule_for_day_mem by force
  next
    assume "s = get_schedule_for_day d"
    then show "ws_day s \<le> d
      \<and> (\<forall>s'\<in>set DEFAULT_SCHEDULE. ws_day s' \<le> d \<longrightarrow> ws_day s' \<le> ws_day s)"
      using get_schedule_for_day_le d get_schedule_for_day_greatest by blast
  qed
next
  assume "\<forall>s\<in>set DEFAULT_SCHEDULE. d < ws_day s"
  then show "get_schedule_for_day d = DEFAULT_SCHEDULE ! 0"
    by (rule get_schedule_for_day_floor)
next
  fix s assume "s \<in> set DEFAULT_SCHEDULE"
  then show "ws_day (DEFAULT_SCHEDULE ! 0) \<le> ws_day s"
    by (rule DEFAULT_SCHEDULE_first_least)
qed (simp_all add: get_schedule_for_day_bands DEFAULT_SCHEDULE_def)

theorem schedule_for_day_resolution_witness:
  "(1::int) \<le> 10 \<and> ws_day (get_schedule_for_day 10) = 8
   \<and> list_all (\<lambda>s. (0::int) < ws_day s) DEFAULT_SCHEDULE
   \<and> ws_daily_limit (get_schedule_for_day 0) = 5"
proof -
  have h: "\<forall>s\<in>set DEFAULT_SCHEDULE. (0::int) < ws_day s"
    by (simp add: DEFAULT_SCHEDULE_def)
  have m: "\<lparr>ws_day = 8, ws_daily_limit = 30, ws_reply_rate = 0.6\<rparr> \<in> set DEFAULT_SCHEDULE"
    by (simp add: DEFAULT_SCHEDULE_def)
  have "get_schedule_for_day 10 = \<lparr>ws_day = 8, ws_daily_limit = 30, ws_reply_rate = 0.6\<rparr>"
    using schedule_for_day_resolution [of 10] m
    by (auto simp add: DEFAULT_SCHEDULE_def)
  moreover have "get_schedule_for_day 0 = DEFAULT_SCHEDULE ! 0"
    using schedule_for_day_resolution [of 0] h by blast
  ultimately show ?thesis by (simp add: DEFAULT_SCHEDULE_def)
qed

section \<open>Properties of the warmup metrics\<close>













section \<open>Properties of the campaign state machine\<close>

lemma sample_leads:
  "leads sample_campaign =
     [\<lparr>email = PStr ''alice@acme.com'', first_name = PStr ''alice'',
       company_name = PStr ''Acme'',
       extra = Some [(Some ''email'', PStr ''alice@acme.com''),
                     (Some ''first_name'', PStr ''alice''),
                     (Some ''company_name'', PStr ''Acme'')]\<rparr>,
      \<lparr>email = PStr ''bob@widgets.com'', first_name = PStr ''bob'',
       company_name = PStr ''Widgets'',
       extra = Some [(Some ''email'', PStr ''bob@widgets.com''),
                     (Some ''first_name'', PStr ''bob''),
                     (Some ''company_name'', PStr ''Widgets'')]\<rparr>]"
  by (simp add: sample_campaign_def sample_rows_def lead_of_row_def row_dict_def dict_get_def)

lemma validate_sample: "validate sample_campaign = Inr []"
  by (simp add: validate_def sample_leads)
     (simp add: sample_campaign_def personalize_def replace_def)

lemma validate_ignores_status:
  "validate (self\<lparr>status := s, started_at := t\<rparr>) = validate self"
  by (simp add: validate_def)

lemma start_sample:
  "start dir now (sample_campaign\<lparr>status := s, started_at := t\<rparr>)
     = Inr (Started ''campaign_20260105_090000'',
            sample_campaign\<lparr>status := ''active'', started_at := Some now\<rparr>,
            save dir (sample_campaign\<lparr>status := ''active'', started_at := Some now\<rparr>))"
  by (simp add: start_def validate_ignores_status validate_sample Let_def)
     (simp add: sample_campaign_def)

text \<open>
  Claim C1, as stated, fails: a second successful start overwrites \<open>started_at\<close>. The
  sample campaign is started at \<open>sample_time\<close>, paused, and started again at
  \<open>sample_later\<close>; both starts succeed, and \<open>started_at\<close> is then \<open>sample_later\<close>, not the
  value the first start set.
\<close>

theorem started_at_overwritten_by_second_start:
  "start Map.empty sample_time sample_campaign
     = Inr (Started ''campaign_20260105_090000'',
            sample_campaign\<lparr>status := ''active'', started_at := Some sample_time\<rparr>,
            save Map.empty (sample_campaign\<lparr>status := ''active'', started_at := Some sample_time\<rparr>))
   \<and> fst (pause (save Map.empty (sample_campaign\<lparr>status := ''active'', started_at := Some sample_time\<rparr>))
          (sample_campaign\<lparr>status := ''active'', started_at := Some sample_time\<rparr>))
     = sample_campaign\<lparr>status := ''paused'', started_at := Some sample_time\<rparr>
   \<and> start (snd (pause (save Map.empty (sample_campaign\<lparr>status := ''active'', started_at := Some sample_time\<rparr>))
                 (sample_campaign\<lparr>status := ''active'', started_at := Some sample_time\<rparr>)))
        sample_later (sample_campaign\<lparr>status := ''paused'', started_at := Some sample_time\<rparr>)
     = Inr (Started ''campaign_20260105_090000'',
            sample_campaign\<lparr>status := ''active'', started_at := Some sample_later\<rparr>,
            save (snd (pause (save Map.empty (sample_campaign\<lparr>status := ''active'', started_at := Some sample_time\<rparr>))
                    (sample_campaign\<lparr>status := ''active'', started_at := Some sample_time\<rparr>)))
              (sample_campaign\<lparr>status := ''active'', started_at := Some sample_later\<rparr>))
   \<and> started_at (sample_campaign\<lparr>status := ''active'', started_at := Some sample_later\<rparr>)
       \<noteq> started_at (sample_campaign\<lparr>status := ''active'', started_at := Some sample_time\<rparr>)"
proof -
  have "sample_campaign\<lparr>status := ''draft'', started_at := None\<rparr> = sample_campaign"
    by (simp add: sample_campaign_def)
  then have "start Map.empty sample_time sample_campaign
     = Inr (Started ''campaign_20260105_090000'',
            sample_campaign\<lparr>status := ''active'', started_at := Some sample_time\<rparr>,
            save Map.empty (sample_campaign\<lparr>status := ''active'', started_at := Some sample_time\<rparr>))"
    using start_sample [where dir = Map.empty and now = sample_time and s = "''draft''" and t = None]
    by simp
  moreover have "fst (pause (save Map.empty (sample_campaign\<lparr>status := ''active'', started_at := Some sample_time\<rparr>))
          (sample_campaign\<lparr>status := ''active'', started_at := Some sample_time\<rparr>))
     = sample_campaign\<lparr>status := ''paused'', started_at := Some sample_time\<rparr>"
    by (simp add: pause_def Let_def)
  moreover have "sample_later \<noteq> sample_time"
    by (simp add: sample_later_def sample_time_def)
  ultimately show ?thesis
    by (simp add: start_sample)
qed

text \<open>
  Claim C1, amended. Every successful start sets \<open>started_at\<close> to the time of that call
  (so a later successful start replaces the earlier value); a refused start, \<open>pause\<close> and
  \<open>resume\<close> leave \<open>started_at\<close> as it was, so after a successful start followed by
  \<open>pause\<close> and \<open>resume\<close> it still holds the value that start set.
\<close>

theorem started_at_set_by_start_kept_by_pause_resume:
  "(start dir now self = Inr (Started cid, self', dir') \<longrightarrow> started_at self' = Some now)
   \<and> (start dir now self = Inr (StartError errs, self', dir') \<longrightarrow>
        started_at self' = started_at self)
   \<and> started_at (fst (pause dir self)) = started_at self
   \<and> started_at (fst (resume dir self)) = started_at self
   \<and> (start dir now self = Inr (Started cid, self', dir') \<longrightarrow>
        started_at (fst (resume (snd (pause dir' self')) (fst (pause dir' self')))) = Some now)"
  by (auto simp add: start_def pause_def resume_def Let_def split: sum.splits if_splits)

theorem started_at_set_by_start_kept_by_pause_resume_witness:
  "start Map.empty sample_time sample_campaign
     = Inr (Started ''campaign_20260105_090000'',
            sample_campaign\<lparr>status := ''active'', started_at := Some sample_time\<rparr>,
            save Map.empty (sample_campaign\<lparr>status := ''active'', started_at := Some sample_time\<rparr>))
   \<and> started_at (fst (resume
         (snd (pause (save Map.empty (sample_campaign\<lparr>status := ''active'', started_at := Some sample_time\<rparr>))
                (sample_campaign\<lparr>status := ''active'', started_at := Some sample_time\<rparr>)))
         (fst (pause (save Map.empty (sample_campaign\<lparr>status := ''active'', started_at := Some sample_time\<rparr>))
                (sample_campaign\<lparr>status := ''active'', started_at := Some sample_time\<rparr>)))))
       = Some sample_time
   \<and> start Map.empty sample_time (sample_campaign\<lparr>mailboxes := []\<rparr>)
     = Inr (StartError [''No mailboxes configured''], sample_campaign\<lparr>mailboxes := []\<rparr>, Map.empty)
   \<and> started_at (sample_campaign\<lparr>mailboxes := []\<rparr>) = None"
proof -
  have s: "start Map.empty sample_time sample_campaign
     = Inr (Started ''campaign_20260105_090000'',
            sample_campaign\<lparr>status := ''active'', started_at := Some sample_time\<rparr>,
            save Map.empty (sample_campaign\<lparr>status := ''active'', started_at := Some sample_time\<rparr>))"
    using start_sample [where dir = Map.empty and now = sample_time and s = "''draft''" and t = None]
    by (simp add: sample_campaign_def)
  have e: "start Map.empty sample_time (sample_campaign\<lparr>mailboxes := []\<rparr>)
     = Inr (StartError [''No mailboxes configured''], sample_campaign\<lparr>mailboxes := []\<rparr>, Map.empty)"
    by (simp add: start_def validate_def sample_leads)
       (simp add: sample_campaign_def personalize_def replace_def)
  show ?thesis
    using s e
      started_at_set_by_start_kept_by_pause_resume
        [where dir = Map.empty and now = sample_time and self = sample_campaign
           and cid = "''campaign_20260105_090000''"
           and self' = "sample_campaign\<lparr>status := ''active'', started_at := Some sample_time\<rparr>"
           and dir' = "save Map.empty (sample_campaign\<lparr>status := ''active'', started_at := Some sample_time\<rparr>)"]
      started_at_set_by_start_kept_by_pause_resume
        [where dir = Map.empty and now = sample_time
           and self = "sample_campaign\<lparr>mailboxes := []\<rparr>"
           and self' = "sample_campaign\<lparr>mailboxes := []\<rparr>" and dir' = Map.empty
           and errs = "[''No mailboxes configured'']"]
    by (simp add: sample_campaign_def)
qed

text \<open>
  Claim C4. When \<open>validate\<close> returns a non-empty error list, \<open>start\<close> raises nothing: it
  returns the failure result carrying exactly that list, and neither the campaign nor
  the campaign directory changes. The status is therefore unchanged and \<open>started_at\<close> is
  not assigned: a campaign whose \<open>started_at\<close> was unset still has it unset.
\<close>

theorem start_refused_on_validation_errors:
  assumes "validate self = Inr errors" and "errors \<noteq> []"
  shows "start dir now self = Inr (StartError errors, self, dir)
         \<and> (\<forall>r self' dir'. start dir now self = Inr (r, self', dir') \<longrightarrow>
               r = StartError errors \<and> status self' = status self
               \<and> started_at self' = started_at self
               \<and> (started_at self = None \<longrightarrow> started_at self' = None)
               \<and> dir' = dir)"
  using assms by (simp add: start_def)

theorem start_refused_on_validation_errors_witness:
  "validate (sample_campaign\<lparr>leads := [], mailboxes := []\<rparr>)
     = Inr [''No leads loaded'', ''No mailboxes configured'']
   \<and> start Map.empty sample_time (sample_campaign\<lparr>leads := [], mailboxes := []\<rparr>)
     = Inr (StartError [''No leads loaded'', ''No mailboxes configured''],
            sample_campaign\<lparr>leads := [], mailboxes := []\<rparr>, Map.empty)
   \<and> status (sample_campaign\<lparr>leads := [], mailboxes := []\<rparr>) = ''draft''
   \<and> started_at (sample_campaign\<lparr>leads := [], mailboxes := []\<rparr>) = None"
proof -
  have v: "validate (sample_campaign\<lparr>leads := [], mailboxes := []\<rparr>)
     = Inr [''No leads loaded'', ''No mailboxes configured'']"
    by (simp add: validate_def sample_campaign_def)
  have n: "[''No leads loaded'', ''No mailboxes configured''] \<noteq> []"
    by simp
  have "status (sample_campaign\<lparr>leads := [], mailboxes := []\<rparr>) = ''draft''"
    and "started_at (sample_campaign\<lparr>leads := [], mailboxes := []\<rparr>) = None"
    by (simp_all add: sample_campaign_def)
  then show ?thesis
    using v start_refused_on_validation_errors [OF v n, of Map.empty sample_time]
    by blast
qed

lemma load_after_save:
  "load files (save dir self) t_id t_created (campaign_id self)
     = Inr \<lparr>campaign_id = campaign_id self,
            name = name self,
            leads_csv = None,
            mailboxes = mailboxes self,
            daily_limit = daily_limit self,
            sequence = sequence self,
            status = status self,
            created_at = t_created,
            leads = [],
            started_at = None\<rparr>"
  by (simp add: load_def save_def init_def)

text \<open>
  Claim C5. Saving a campaign and loading it by its id returns a campaign with the same
  sequence (the same templates in the same order, each with its subject, body and
  \<open>delay_days\<close>), the same status, mailboxes and daily limit, and with no leads, however
  many leads the saved campaign had.
\<close>

theorem save_load_round_trip:
  "\<exists>loaded. load files (save dir self) t_id t_created (campaign_id self) = Inr loaded
     \<and> sequence loaded = sequence self
     \<and> map subject (sequence loaded) = map subject (sequence self)
     \<and> map body (sequence loaded) = map body (sequence self)
     \<and> map delay_days (sequence loaded) = map delay_days (sequence self)
     \<and> status loaded = status self
     \<and> mailboxes loaded = mailboxes self
     \<and> daily_limit loaded = daily_limit self
     \<and> leads loaded = []"
  by (simp add: load_after_save)

text \<open>
  Claim C10. \<open>load\<close> takes the id, name, status, mailboxes, daily limit and sequence from
  the stored document and nothing else: whatever \<open>started_at\<close> and \<open>created_at\<close> the
  document holds, the loaded campaign has no \<open>started_at\<close> and its \<open>created_at\<close> is the
  clock reading taken when the object is built. This holds in particular for a campaign
  that was started, and so saved with its \<open>started_at\<close>, before it is loaded.
\<close>

theorem load_restores_six_fields:
  "(dir (cid @ ''.json'') = Some st \<longrightarrow>
      load files dir t_id t_created cid
        = Inr \<lparr>campaign_id = st_id st,
               name = st_name st,
               leads_csv = None,
               mailboxes = st_mailboxes st,
               daily_limit = st_daily_limit st,
               sequence = st_sequence st,
               status = st_status st,
               created_at = t_created,
               leads = [],
               started_at = None\<rparr>)
   \<and> (start dir0 now self = Inr (Started i, self', dir') \<longrightarrow>
        started_at self' = Some now
        \<and> map_option st_started_at (dir' (campaign_id self' @ ''.json''))
            = Some (Some (str_datetime now))
        \<and> (\<exists>loaded. load files dir' t_id t_created (campaign_id self') = Inr loaded
              \<and> started_at loaded = None \<and> created_at loaded = t_created))"
proof (intro conjI impI)
  assume "dir (cid @ ''.json'') = Some st"
  then show "load files dir t_id t_created cid
        = Inr \<lparr>campaign_id = st_id st, name = st_name st, leads_csv = None,
               mailboxes = st_mailboxes st, daily_limit = st_daily_limit st,
               sequence = st_sequence st, status = st_status st, created_at = t_created,
               leads = [], started_at = None\<rparr>"
    by (simp add: load_def init_def)
next
  assume a: "start dir0 now self = Inr (Started i, self', dir')"
  then have s: "self' = self\<lparr>status := ''active'', started_at := Some now\<rparr>"
    and d: "dir' = save dir0 self'"
    by (auto simp add: start_def Let_def split: sum.splits if_splits)
  show "started_at self' = Some now" using s by simp
  show "map_option st_started_at (dir' (campaign_id self' @ ''.json''))
            = Some (Some (str_datetime now))"
    using s d by (simp add: save_def)
  show "\<exists>loaded. load files dir' t_id t_created (campaign_id self') = Inr loaded
              \<and> started_at loaded = None \<and> created_at loaded = t_created"
    unfolding d by (simp add: load_after_save)
qed

theorem load_restores_six_fields_witness:
  "start Map.empty sample_time sample_campaign
     = Inr (Started ''campaign_20260105_090000'',
            sample_campaign\<lparr>status := ''active'', started_at := Some sample_time\<rparr>,
            save Map.empty (sample_campaign\<lparr>status := ''active'', started_at := Some sample_time\<rparr>))
   \<and> load Map.empty
        (save Map.empty (sample_campaign\<lparr>status := ''active'', started_at := Some sample_time\<rparr>))
        sample_later sample_later ''campaign_20260105_090000''
     = Inr \<lparr>campaign_id = ''campaign_20260105_090000'',
            name = ''Q1 Outreach'',
            leads_csv = None,
            mailboxes = [''john@acmeleads.com''],
            daily_limit = 50,
            sequence = [\<lparr>subject = ''Hello'',
                         body = ''Hi {{first_name}} from {{company_name}}'',
                         delay_days = 0\<rparr>],
            status = ''active'',
            created_at = sample_later,
            leads = [],
            started_at = None\<rparr>"
proof -
  have s: "start Map.empty sample_time sample_campaign
     = Inr (Started ''campaign_20260105_090000'',
            sample_campaign\<lparr>status := ''active'', started_at := Some sample_time\<rparr>,
            save Map.empty (sample_campaign\<lparr>status := ''active'', started_at := Some sample_time\<rparr>))"
    using start_sample [where dir = Map.empty and now = sample_time and s = "''draft''" and t = None]
    by (simp add: sample_campaign_def)
  have f: "save Map.empty (sample_campaign\<lparr>status := ''active'', started_at := Some sample_time\<rparr>)
        (''campaign_20260105_090000'' @ ''.json'')
     = Some \<lparr>st_id = ''campaign_20260105_090000'', st_name = ''Q1 Outreach'',
             st_status = ''active'', st_created_at = isoformat sample_time,
             st_started_at = Some (str_datetime sample_time), st_leads_count = 2,
             st_mailboxes = [''john@acmeleads.com''], st_daily_limit = 50,
             st_sequence = [\<lparr>subject = ''Hello'',
                             body = ''Hi {{first_name}} from {{company_name}}'',
                             delay_days = 0\<rparr>]\<rparr>"
    by (simp add: save_def sample_leads) (simp add: sample_campaign_def)
  show ?thesis
    using s f
      load_restores_six_fields
        [where dir = "save Map.empty (sample_campaign\<lparr>status := ''active'', started_at := Some sample_time\<rparr>)"
           and cid = "''campaign_20260105_090000''" and files = Map.empty
           and t_id = sample_later and t_created = sample_later
           and dir0 = Map.empty and now = sample_time and self = sample_campaign
           and i = "''campaign_20260105_090000''"
           and self' = "sample_campaign\<lparr>status := ''active'', started_at := Some sample_time\<rparr>"
           and dir' = "save Map.empty (sample_campaign\<lparr>status := ''active'', started_at := Some sample_time\<rparr>)"]
    by simp
qed

section \<open>Properties of the lead store\<close>

lemma read_all_rows: "read_all (map Row rows) = (rows, None)"
  by (induction rows) simp_all

lemma read_all_rows_then_raise: "read_all (map Row rows @ Raises e # items) = (rows, Some e)"
  by (induction rows) simp_all

text \<open>
  Claim C2, as stated, fails: an empty lead file has no header row, and loading it raises
  nothing. \<open>load_leads\<close> returns the campaign with its leads as they were, and the
  constructor given that file returns a campaign with no leads.
\<close>

theorem load_leads_empty_file_no_error:
  "load_leads (Map.empty(''leads.csv'' \<mapsto> Readable [])) sample_campaign ''leads.csv''
     = (None, sample_campaign)
   \<and> init (Map.empty(''leads.csv'' \<mapsto> Readable [])) sample_time sample_time ''Q1 Outreach''
        (Some ''leads.csv'') None 50
     = Inr \<lparr>campaign_id = ''campaign_20260105_090000'', name = ''Q1 Outreach'',
            leads_csv = Some ''leads.csv'', mailboxes = [], daily_limit = 50,
            sequence = [], status = ''draft'', created_at = sample_time, leads = [],
            started_at = None\<rparr>"
  by (simp add: load_leads_def open_csv_def init_def strftime_stamp_def zpad_def
        sample_time_def str_nat.simps)

text \<open>
  Claim C2, amended. \<open>load_leads\<close> fails for every path that does not resolve, with the
  exception \<^verbatim>\<open>open\<close> raises for it: \<open>FileNotFoundError\<close> when no file has that name, and
  otherwise the error of the path (\<open>NotADirectoryError\<close>, \<open>ValueError\<close>, another
  \<open>OSError\<close>). It fails for every file whose header row the reader cannot read, with the
  reader's exception (\<open>CsvError\<close>, \<open>UnicodeDecodeError\<close>); the same holds for an exception
  at a later row, the leads of the rows read before it staying appended. In each of
  these cases the constructor raises the same exception. There is no check that a
  header row is present: a file with no rows loads without error and adds no lead, and
  a file that reads to its end adds the leads of its rows.
\<close>

theorem load_leads_failures:
  "(files csv_path = None \<longrightarrow>
      load_leads files self csv_path = (Some (FileNotFoundError csv_path), self)
      \<and> (csv_path \<noteq> [] \<longrightarrow>
           init files t_id t_created nm (Some csv_path) mbs limit
             = Inl (FileNotFoundError csv_path)))
   \<and> (files csv_path = Some (Unopenable e) \<longrightarrow>
        load_leads files self csv_path = (Some e, self)
        \<and> (csv_path \<noteq> [] \<longrightarrow>
             init files t_id t_created nm (Some csv_path) mbs limit = Inl e))
   \<and> (files csv_path = Some (Readable (Raises e # items)) \<longrightarrow>
        load_leads files self csv_path = (Some e, self)
        \<and> (csv_path \<noteq> [] \<longrightarrow>
             init files t_id t_created nm (Some csv_path) mbs limit = Inl e))
   \<and> (files csv_path = Some (Readable (map Row rows @ Raises e # items)) \<longrightarrow>
        load_leads files self csv_path
          = (Some e, self\<lparr>leads := leads self @ map lead_of_row (dict_reader rows)\<rparr>)
        \<and> (csv_path \<noteq> [] \<longrightarrow>
             init files t_id t_created nm (Some csv_path) mbs limit = Inl e))
   \<and> (files csv_path = Some (Readable []) \<longrightarrow> load_leads files self csv_path = (None, self))
   \<and> (files csv_path = Some (Readable (map Row rows)) \<longrightarrow>
        load_leads files self csv_path
          = (None, self\<lparr>leads := leads self @ map lead_of_row (dict_reader rows)\<rparr>))"
  by (simp add: load_leads_def open_csv_def init_def read_all_rows read_all_rows_then_raise)

theorem load_leads_failures_witness:
  "load_leads Map.empty sample_campaign ''missing.csv''
     = (Some (FileNotFoundError ''missing.csv''), sample_campaign)
   \<and> init Map.empty sample_time sample_time ''Q1 Outreach'' (Some ''missing.csv'') None 50
     = Inl (FileNotFoundError ''missing.csv'')
   \<and> load_leads (Map.empty(''leads.csv/x'' \<mapsto> Unopenable NotADirectoryError))
        sample_campaign ''leads.csv/x''
     = (Some NotADirectoryError, sample_campaign)
   \<and> load_leads (Map.empty(''leads.csv'' \<mapsto> Readable [Raises CsvError]))
        sample_campaign ''leads.csv''
     = (Some CsvError, sample_campaign)
   \<and> init (Map.empty(''leads.csv'' \<mapsto> Readable [Raises UnicodeDecodeError]))
        sample_time sample_time ''Q1 Outreach'' (Some ''leads.csv'') None 50
     = Inl UnicodeDecodeError
   \<and> load_leads (Map.empty(''leads.csv'' \<mapsto> Readable [])) sample_campaign ''leads.csv''
     = (None, sample_campaign)
   \<and> load_leads
        (Map.empty(''leads.csv'' \<mapsto>
           Readable (map Row [[''email''], [''carol@acme.com'']] @ Raises CsvError # [])))
        (sample_campaign\<lparr>leads := []\<rparr>) ''leads.csv''
     = (Some CsvError,
        sample_campaign\<lparr>leads :=
          [\<lparr>email = PStr ''carol@acme.com'', first_name = PStr [], company_name = PStr [],
            extra = Some [(Some ''email'', PStr ''carol@acme.com'')]\<rparr>]\<rparr>)"
proof -
  have 1: "load_leads Map.empty sample_campaign ''missing.csv''
        = (Some (FileNotFoundError ''missing.csv''), sample_campaign)
     \<and> init Map.empty sample_time sample_time ''Q1 Outreach'' (Some ''missing.csv'') None 50
        = Inl (FileNotFoundError ''missing.csv'')"
    using load_leads_failures [of Map.empty "''missing.csv''" sample_campaign sample_time
      sample_time "''Q1 Outreach''" None 50 CsvError "[]" "[]"]
    by simp
  have 2: "load_leads (Map.empty(''leads.csv/x'' \<mapsto> Unopenable NotADirectoryError))
        sample_campaign ''leads.csv/x''
     = (Some NotADirectoryError, sample_campaign)"
    using load_leads_failures [of "Map.empty(''leads.csv/x'' \<mapsto> Unopenable NotADirectoryError)"
      "''leads.csv/x''" sample_campaign sample_time sample_time "''Q1 Outreach''" None 50
      NotADirectoryError "[]" "[]"]
    by simp
  have 3: "load_leads (Map.empty(''leads.csv'' \<mapsto> Readable [Raises CsvError]))
        sample_campaign ''leads.csv''
     = (Some CsvError, sample_campaign)"
    using load_leads_failures [of "Map.empty(''leads.csv'' \<mapsto> Readable [Raises CsvError])"
      "''leads.csv''" sample_campaign sample_time sample_time "''Q1 Outreach''" None 50
      CsvError "[]" "[]"]
    by simp
  have 4: "init (Map.empty(''leads.csv'' \<mapsto> Readable [Raises UnicodeDecodeError]))
        sample_time sample_time ''Q1 Outreach'' (Some ''leads.csv'') None 50
     = Inl UnicodeDecodeError"
    using load_leads_failures [of "Map.empty(''leads.csv'' \<mapsto> Readable [Raises UnicodeDecodeError])"
      "''leads.csv''" sample_campaign sample_time sample_time "''Q1 Outreach''" None 50
      UnicodeDecodeError "[]" "[]"]
    by simp
  have 5: "load_leads (Map.empty(''leads.csv'' \<mapsto> Readable [])) sample_campaign ''leads.csv''
     = (None, sample_campaign)"
    using load_leads_failures [of "Map.empty(''leads.csv'' \<mapsto> Readable [])"
      "''leads.csv''" sample_campaign sample_time sample_time "''Q1 Outreach''" None 50
      CsvError "[]" "[]"]
    by simp
  have 6: "load_leads
        (Map.empty(''leads.csv'' \<mapsto>
           Readable (map Row [[''email''], [''carol@acme.com'']] @ Raises CsvError # [])))
        (sample_campaign\<lparr>leads := []\<rparr>) ''leads.csv''
     = (Some CsvError,
        sample_campaign\<lparr>leads :=
          [\<lparr>email = PStr ''carol@acme.com'', first_name = PStr [], company_name = PStr [],
            extra = Some [(Some ''email'', PStr ''carol@acme.com'')]\<rparr>]\<rparr>)"
    using load_leads_failures [of "Map.empty(''leads.csv'' \<mapsto>
           Readable (map Row [[''email''], [''carol@acme.com'']] @ Raises CsvError # []))"
      "''leads.csv''" "sample_campaign\<lparr>leads := []\<rparr>" sample_time sample_time
      "''Q1 Outreach''" None 50 CsvError "[]" "[[''email''], [''carol@acme.com'']]"]
    by (simp add: lead_of_row_def row_dict_def dict_get_def)
  from 1 2 3 4 5 6 show ?thesis by blast
qed

section \<open>Properties of the validator\<close>


lemma personalize_untyped:
  "\<not> typed_lead lead \<Longrightarrow> personalize b lead = Inl TypeError"
  by (cases "first_name lead"; cases "company_name lead"; cases "email lead")
     (auto simp add: typed_lead_def personalize_def split: option.splits list.splits)







section \<open>Properties of the template renderer\<close>

lemma rf_skip_other:
  "c \<noteq> CHR ''{'' \<Longrightarrow>
   replace_from (''{{'' @ x) v (c # t) = c # replace_from (''{{'' @ x) v t"
  by simp

lemma rf_skip_single_brace:
  "c \<noteq> CHR ''{'' \<Longrightarrow>
   replace_from (''{{'' @ x) v (CHR ''{'' # c # t)
     = CHR ''{'' # c # replace_from (''{{'' @ x) v t"
  by simp

lemma rf_skip_brace_free:
  "CHR ''{'' \<notin> set p \<Longrightarrow>
   replace_from (''{{'' @ x) v (p @ t) = p @ replace_from (''{{'' @ x) v t"
  by (induction p) simp_all

lemma placeholders_ok_drop: "placeholders_ok ks s \<Longrightarrow> placeholders_ok ks (drop n s)"
proof (induction s arbitrary: n)
  case Nil
  then show ?case by simp
next
  case (Cons c cs)
  then show ?case by (cases n) (auto split: if_splits)
qed

lemma placeholders_ok_prepend:
  "CHR ''{'' \<notin> set v \<Longrightarrow> placeholders_ok ks r \<Longrightarrow> placeholders_ok ks (v @ r)"
  by (induction v) simp_all

lemma placeholders_ok_none: "placeholders_ok ks s \<Longrightarrow> set ks = {} \<Longrightarrow> \<not> contains ''{{'' s"
  by (induction s) (auto simp add: list_ex_iff split: if_splits)

lemma rf_skip_placeholder:
  assumes "CHR ''{'' \<notin> set k"
  shows "replace_from (''{{'' @ x) v (''{'' @ k @ ''}}'' @ t)
           = ''{'' @ k @ ''}}'' @ replace_from (''{{'' @ x) v t"
proof (cases k)
  case Nil
  then show ?thesis by simp
next
  case (Cons a k')
  with assms have a: "a \<noteq> CHR ''{''" and k': "CHR ''{'' \<notin> set (k' @ ''}}'')"
    by auto
  have "replace_from (''{{'' @ x) v (CHR ''{'' # a # (k' @ ''}}'') @ t)
          = CHR ''{'' # a # replace_from (''{{'' @ x) v ((k' @ ''}}'') @ t)"
    using a by (rule rf_skip_single_brace)
  also have "replace_from (''{{'' @ x) v ((k' @ ''}}'') @ t)
          = (k' @ ''}}'') @ replace_from (''{{'' @ x) v t"
    using k' by (rule rf_skip_brace_free)
  finally show ?thesis using Cons by simp
qed

lemma rf_head_brace:
  assumes "replace_from (''{{'' @ x) v cs = CHR ''{'' # r" and "CHR ''{'' \<notin> set v"
  shows "\<exists>cs'. cs = CHR ''{'' # cs'"
proof (cases cs)
  case Nil
  with assms show ?thesis by simp
next
  case (Cons c' cs')
  show ?thesis
  proof (cases "c' = CHR ''{''")
    case True
    with Cons show ?thesis by simp
  next
    case False
    then have "replace_from (''{{'' @ x) v (c' # cs') = c' # replace_from (''{{'' @ x) v cs'"
      by (rule rf_skip_other)
    with assms Cons False show ?thesis by simp
  qed
qed

lemma placeholders_ok_replace_from:
  assumes "old = ''{{'' @ k1 @ ''}}''"
    and "CHR ''{'' \<notin> set v"
    and "\<forall>k\<in>set ks. CHR ''{'' \<notin> set k"
    and "placeholders_ok ks s"
  shows "placeholders_ok (removeAll k1 ks) (replace_from old v s)"
  using assms
proof (induction old v s rule: replace_from.induct)
  case (1 old new)
  then show ?case by simp
next
  case (2 old new c cs)
  note old = \<open>old = ''{{'' @ k1 @ ''}}''\<close>
  show ?case
  proof (cases "prefix old (c # cs)")
    case True
    have "placeholders_ok ks (drop (length old) (c # cs))"
      using "2.prems"(4) by (rule placeholders_ok_drop)
    moreover have "old \<noteq> []"
      using old by simp
    then have ne: "old \<noteq> [] \<and> prefix old (c # cs)"
      using True by blast
    ultimately have "placeholders_ok (removeAll k1 ks)
                 (replace_from old new (drop (length old) (c # cs)))"
      using "2.IH"(1) "2.prems"(1,2,3) by blast
    then have "placeholders_ok (removeAll k1 ks)
                 (new @ replace_from old new (drop (length old) (c # cs)))"
      using "2.prems"(2) by (simp add: placeholders_ok_prepend)
    moreover have "replace_from old new (c # cs)
                 = new @ replace_from old new (drop (length old) (c # cs))"
      using ne by simp
    ultimately show ?thesis by simp
  next
    case False
    have tl_ok: "placeholders_ok ks cs"
      using "2.prems"(4) by simp
    have nn: "\<not> (old \<noteq> [] \<and> prefix old (c # cs))"
      using False by simp
    have ih: "placeholders_ok (removeAll k1 ks) (replace_from old new cs)"
      using "2.IH"(2) nn tl_ok "2.prems"(1,2,3) by blast
    have step: "replace_from old new (c # cs) = c # replace_from old new cs"
      using False by simp
    have hd_ok: "list_ex (\<lambda>k. prefix (''{{'' @ k @ ''}}'') (c # replace_from old new cs))
            (removeAll k1 ks)"
      if opens: "prefix ''{{'' (c # replace_from old new cs)"
    proof -
      from opens obtain r where c: "c = CHR ''{''"
        and r: "replace_from old new cs = CHR ''{'' # r"
        by (auto simp add: prefix_def)
      from r obtain cs' where cs: "cs = CHR ''{'' # cs'"
        using rf_head_brace [of "k1 @ ''}}''" new cs r] "2.prems"(2) old by auto
      have "prefix ''{{'' (c # cs)"
        using c cs by simp
      then have "list_ex (\<lambda>k. prefix (''{{'' @ k @ ''}}'') (c # cs)) ks"
        using "2.prems"(4) by (simp split: if_splits)
      then obtain k where k: "k \<in> set ks" and pk: "prefix (''{{'' @ k @ ''}}'') (c # cs)"
        by (auto simp add: list_ex_iff)
      have "k \<noteq> k1"
        using pk False old by auto
      then have k': "k \<in> set (removeAll k1 ks)"
        using k by simp
      have kb: "CHR ''{'' \<notin> set k"
        using k "2.prems"(3) by blast
      from pk obtain t where "c # cs = (''{{'' @ k @ ''}}'') @ t"
        by (auto simp add: prefix_def)
      then have cst: "cs = ''{'' @ k @ ''}}'' @ t"
        by simp
      have "replace_from old new cs = ''{'' @ k @ ''}}'' @ replace_from old new t"
        unfolding cst old using kb rf_skip_placeholder [of k "k1 @ ''}}''" new t] by simp
      then have "prefix (''{{'' @ k @ ''}}'') (c # replace_from old new cs)"
        using c by simp
      with k' show ?thesis
        by (auto simp add: list_ex_iff)
    qed
    have "placeholders_ok (removeAll k1 ks) (c # replace_from old new cs)"
      using ih hd_ok by auto
    then show ?thesis by (simp only: step)
  qed
qed

lemma placeholders_ok_replace:
  assumes "CHR ''{'' \<notin> set v" and "\<forall>k\<in>set ks. CHR ''{'' \<notin> set k"
    and "placeholders_ok ks s"
  shows "placeholders_ok (removeAll k1 ks) (replace s (''{{'' @ k1 @ ''}}'') v)"
proof -
  have "placeholders_ok (removeAll k1 ks) (replace_from (''{{'' @ k1 @ ''}}'') v s)"
    using refl assms by (rule placeholders_ok_replace_from)
  then show ?thesis by (simp add: replace_def)
qed

lemma placeholders_ok_replace_extra:
  "placeholders_ok ks s \<Longrightarrow> \<forall>k\<in>set ks. CHR ''{'' \<notin> set k \<Longrightarrow>
   list_all (\<lambda>(key, v). CHR ''{'' \<notin> set (py_str v)) kvs \<Longrightarrow>
   placeholders_ok (filter (\<lambda>k. k \<notin> set (map (\<lambda>(key, v). key_str key) kvs)) ks)
     (replace_extra s kvs)"
proof (induction kvs arbitrary: s ks)
  case Nil
  then show ?case by simp
next
  case (Cons kv kvs)
  obtain key v where kv: "kv = (key, v)"
    by (cases kv)
  have v: "CHR ''{'' \<notin> set (py_str v)"
    and rest: "list_all (\<lambda>(key, v). CHR ''{'' \<notin> set (py_str v)) kvs"
    using Cons.prems(3) kv by simp_all
  have one: "placeholders_ok (removeAll (key_str key) ks)
               (replace s (''{{'' @ key_str key @ ''}}'') (py_str v))"
    using v Cons.prems(2) Cons.prems(1) by (rule placeholders_ok_replace)
  have keys: "\<forall>k\<in>set (removeAll (key_str key) ks). CHR ''{'' \<notin> set k"
    using Cons.prems(2) by simp
  have "placeholders_ok
          (filter (\<lambda>k. k \<notin> set (map (\<lambda>(key, v). key_str key) kvs)) (removeAll (key_str key) ks))
          (replace_extra (replace s (''{{'' @ key_str key @ ''}}'') (py_str v)) kvs)"
    using one keys rest by (rule Cons.IH)
  moreover have
    "filter (\<lambda>k. k \<notin> set (map (\<lambda>(key, v). key_str key) kvs)) (removeAll (key_str key) ks)
       = filter (\<lambda>k. k \<notin> set (map (\<lambda>(key, v). key_str key) (kv # kvs))) ks"
    unfolding kv by (induction ks) auto
  ultimately show ?case
    unfolding kv by simp
qed

lemma personalize_typed_eq:
  assumes "first_name lead = PStr f" and "company_name lead = PStr c" and "email lead = PStr e"
  shows "personalize template lead
           = Inr (replace_extra
                   (replace (replace (replace template ''{{first_name}}'' f)
                      ''{{company_name}}'' c) ''{{email}}'' e)
                   (extra_items lead))"
  using assms by (simp add: personalize_def extra_items_def split: option.splits list.splits)

lemma typed_leadE:
  assumes "typed_lead lead"
  obtains f c e where "first_name lead = PStr f" and "company_name lead = PStr c"
    and "email lead = PStr e"
  using assms unfolding typed_lead_def
  by (cases "first_name lead"; cases "company_name lead"; cases "email lead") auto

lemma render_placeholders_consumed:
  assumes f: "first_name lead = PStr f" and c: "company_name lead = PStr c"
    and e: "email lead = PStr e"
    and vf: "CHR ''{'' \<notin> set f" and vc: "CHR ''{'' \<notin> set c" and ve: "CHR ''{'' \<notin> set e"
    and keys: "open_brace_free_keys lead"
    and ok: "only_recognized template lead"
  shows "placeholders_ok
           (removeAll ''email'' (removeAll ''company_name'' (removeAll ''first_name''
              (recognized_keys lead))))
           (replace (replace (replace template ''{{first_name}}'' f)
              ''{{company_name}}'' c) ''{{email}}'' e)"
proof -
  let ?K0 = "recognized_keys lead"
  let ?K1 = "removeAll ''first_name'' ?K0"
  let ?K2 = "removeAll ''company_name'' ?K1"
  have k0: "\<forall>k\<in>set ?K0. CHR ''{'' \<notin> set k"
    using keys
    by (auto simp add: recognized_keys_def typed_names_def open_brace_free_keys_def list_all_iff)
  then have k1: "\<forall>k\<in>set ?K1. CHR ''{'' \<notin> set k" and k2: "\<forall>k\<in>set ?K2. CHR ''{'' \<notin> set k"
    by simp_all
  have p0: "placeholders_ok ?K0 template"
    using ok by (simp add: only_recognized_def)
  have p1: "placeholders_ok ?K1 (replace template (''{{'' @ ''first_name'' @ ''}}'') f)"
    using vf k0 p0 by (rule placeholders_ok_replace)
  have p2: "placeholders_ok ?K2
      (replace (replace template (''{{'' @ ''first_name'' @ ''}}'') f)
         (''{{'' @ ''company_name'' @ ''}}'') c)"
    using vc k1 p1 by (rule placeholders_ok_replace)
  have "placeholders_ok (removeAll ''email'' ?K2)
      (replace (replace (replace template (''{{'' @ ''first_name'' @ ''}}'') f)
         (''{{'' @ ''company_name'' @ ''}}'') c) (''{{'' @ ''email'' @ ''}}'') e)"
    using ve k2 p2 by (rule placeholders_ok_replace)
  then show ?thesis by simp
qed

lemma key_closing_prefix_eq:
  "CHR ''}'' \<notin> set k \<Longrightarrow> CHR ''}'' \<notin> set k' \<Longrightarrow>
   prefix (k @ ''}}'') (k' @ ''}}'') \<Longrightarrow> k = k'"
proof (induction k arbitrary: k')
  case Nil
  then show ?case by (cases k') auto
next
  case (Cons a k)
  then show ?case by (cases k') auto
qed

lemma placeholder_prefix_same_key:
  assumes "CHR ''}'' \<notin> set k" and "CHR ''}'' \<notin> set k'"
    and "prefix (''{{'' @ k @ ''}}'') s" and "prefix (''{{'' @ k' @ ''}}'') s"
  shows "k = k'"
proof -
  from assms(3,4) have "prefix (''{{'' @ k @ ''}}'') (''{{'' @ k' @ ''}}'')
      \<or> prefix (''{{'' @ k' @ ''}}'') (''{{'' @ k @ ''}}'')"
    by (rule prefix_same_cases)
  then have "prefix (k @ ''}}'') (k' @ ''}}'') \<or> prefix (k' @ ''}}'') (k @ ''}}'')"
    by simp
  then show ?thesis
    using assms(1,2) key_closing_prefix_eq [of k k'] key_closing_prefix_eq [of k' k] by blast
qed

lemma replace_from_no_match:
  "\<not> prefix old (c # cs) \<Longrightarrow> replace_from old v (c # cs) = c # replace_from old v cs"
  by simp

lemma replace_from_absent:
  assumes "k \<notin> set ks" and "CHR ''}'' \<notin> set k" and "\<forall>k'\<in>set ks. CHR ''}'' \<notin> set k'"
  shows "placeholders_ok ks s \<Longrightarrow> replace_from (''{{'' @ k @ ''}}'') v s = s"
proof (induction s)
  case Nil
  then show ?case by simp
next
  case (Cons c cs)
  have "\<not> prefix (''{{'' @ k @ ''}}'') (c # cs)"
  proof
    assume p: "prefix (''{{'' @ k @ ''}}'') (c # cs)"
    then have "prefix ''{{'' (c # cs)"
      by (auto simp add: prefix_def)
    then have "list_ex (\<lambda>k'. prefix (''{{'' @ k' @ ''}}'') (c # cs)) ks"
      using Cons.prems by (simp split: if_splits)
    then obtain k' where k': "k' \<in> set ks" and p': "prefix (''{{'' @ k' @ ''}}'') (c # cs)"
      by (auto simp add: list_ex_iff)
    have "k = k'"
      using assms(2) _ p p' by (rule placeholder_prefix_same_key) (use assms(3) k' in blast)
    with k' assms(1) show False by simp
  qed
  then have "replace_from (''{{'' @ k @ ''}}'') v (c # cs)
      = c # replace_from (''{{'' @ k @ ''}}'') v cs"
    by (rule replace_from_no_match)
  moreover have "placeholders_ok ks cs"
    using Cons.prems by simp
  then have "replace_from (''{{'' @ k @ ''}}'') v cs = cs"
    by (rule Cons.IH)
  ultimately show ?case by (simp only:)
qed

lemma replace_extra_drop_conflicting:
  "placeholders_ok ks s \<Longrightarrow> set ks \<inter> set typed_names = {} \<Longrightarrow>
   \<forall>k\<in>set ks. CHR ''{'' \<notin> set k \<and> CHR ''}'' \<notin> set k \<Longrightarrow>
   list_all (\<lambda>(key, v). CHR ''{'' \<notin> set (py_str v))
     (filter (\<lambda>(key, v). key_str key \<notin> set typed_names) kvs) \<Longrightarrow>
   replace_extra s kvs
     = replace_extra s (filter (\<lambda>(key, v). key_str key \<notin> set typed_names) kvs)"
proof (induction kvs arbitrary: s ks)
  case Nil
  then show ?case by simp
next
  case (Cons kv kvs)
  obtain key v where kv: "kv = (key, v)"
    by (cases kv)
  have rest: "list_all (\<lambda>(key, v). CHR ''{'' \<notin> set (py_str v))
     (filter (\<lambda>(key, v). key_str key \<notin> set typed_names) kvs)"
    using Cons.prems(4) by (simp add: kv split: if_splits)
  show ?case
  proof (cases "key_str key \<in> set typed_names")
    case True
    then have "key_str key \<notin> set ks"
      using Cons.prems(2) by blast
    moreover have "CHR ''}'' \<notin> set (key_str key)"
      using True by (auto simp add: typed_names_def)
    moreover have "\<forall>k'\<in>set ks. CHR ''}'' \<notin> set k'"
      using Cons.prems(3) by blast
    ultimately have "replace_from (''{{'' @ key_str key @ ''}}'') (py_str v) s = s"
      using Cons.prems(1) by (rule replace_from_absent)
    then have "replace s (''{{'' @ key_str key @ ''}}'') (py_str v) = s"
      by (simp add: replace_def)
    moreover have "replace_extra s kvs
        = replace_extra s (filter (\<lambda>(key, v). key_str key \<notin> set typed_names) kvs)"
      using Cons.prems(1,2,3) rest by (rule Cons.IH)
    ultimately show ?thesis
      using True by (simp add: kv)
  next
    case False
    let ?s = "replace s (''{{'' @ key_str key @ ''}}'') (py_str v)"
    have v: "CHR ''{'' \<notin> set (py_str v)"
      using Cons.prems(4) False by (simp add: kv)
    have "\<forall>k\<in>set ks. CHR ''{'' \<notin> set k"
      using Cons.prems(3) by blast
    with v have "placeholders_ok (removeAll (key_str key) ks) ?s"
      using Cons.prems(1) by (rule placeholders_ok_replace)
    moreover have "set (removeAll (key_str key) ks) \<inter> set typed_names = {}"
      using Cons.prems(2) by auto
    moreover have "\<forall>k\<in>set (removeAll (key_str key) ks). CHR ''{'' \<notin> set k \<and> CHR ''}'' \<notin> set k"
      using Cons.prems(3) by simp
    ultimately have "replace_extra ?s kvs
        = replace_extra ?s (filter (\<lambda>(key, v). key_str key \<notin> set typed_names) kvs)"
      using rest by (rule Cons.IH)
    then show ?thesis
      using False by (simp add: kv)
  qed
qed

text \<open>
  Claim C8, as stated, fails: a value that itself holds \<^verbatim>\<open>{{\<close> is substituted literally.
  The template \<^verbatim>\<open>Hi {{first_name}}\<close> holds only a recognised placeholder, and for a lead
  whose first name is the text \<^verbatim>\<open>{{nickname}}\<close> the rendering is \<^verbatim>\<open>Hi {{nickname}}\<close>.
\<close>

theorem render_keeps_marker_of_value:
  "only_recognized ''Hi {{first_name}}''
     \<lparr>email = PStr ''al@acme.com'', first_name = PStr ''{{nickname}}'',
      company_name = PStr ''Acme'', extra = None\<rparr>
   \<and> personalize ''Hi {{first_name}}''
        \<lparr>email = PStr ''al@acme.com'', first_name = PStr ''{{nickname}}'',
         company_name = PStr ''Acme'', extra = None\<rparr>
     = Inr ''Hi {{nickname}}''
   \<and> contains ''{{'' ''Hi {{nickname}}''"
  by (simp add: only_recognized_def recognized_keys_def typed_names_def extra_items_def
        personalize_def replace_def)

text \<open>
  Claim C8, amended. For every lead whose typed fields are strings, whose values (typed
  and extra, as \<^verbatim>\<open>str\<close> prints them) hold no \<^verbatim>\<open>{\<close> and whose extra keys hold no \<^verbatim>\<open>{\<close>, and
  every template in which each \<^verbatim>\<open>{{\<close> opens a placeholder \<^verbatim>\<open>{{key}}\<close> of a typed field
  or of a key of the lead's \<open>extra\<close>, \<open>personalize\<close> returns a text with no \<^verbatim>\<open>{{\<close> in it.
\<close>

theorem render_resolves_recognized:
  assumes "typed_lead lead" and "brace_free_values lead" and "open_brace_free_keys lead"
    and "only_recognized template lead"
  shows "\<exists>r. personalize template lead = Inr r \<and> \<not> contains ''{{'' r"
proof -
  from assms(1) obtain f c e where f: "first_name lead = PStr f"
    and c: "company_name lead = PStr c" and e: "email lead = PStr e"
    by (rule typed_leadE)
  let ?r3 = "replace (replace (replace template ''{{first_name}}'' f)
              ''{{company_name}}'' c) ''{{email}}'' e"
  let ?K3 = "removeAll ''email'' (removeAll ''company_name'' (removeAll ''first_name''
              (recognized_keys lead)))"
  let ?names = "map (\<lambda>(key, v). key_str key) (extra_items lead)"
  have "CHR ''{'' \<notin> set f" and "CHR ''{'' \<notin> set c" and "CHR ''{'' \<notin> set e"
    using assms(2) f c e by (simp_all add: brace_free_values_def)
  with f c e have p3: "placeholders_ok ?K3 ?r3"
    using assms(3,4) by (rule render_placeholders_consumed)
  have k3: "\<forall>k\<in>set ?K3. CHR ''{'' \<notin> set k"
    using assms(3)
    by (auto simp add: recognized_keys_def typed_names_def open_brace_free_keys_def list_all_iff)
  have vs: "list_all (\<lambda>(key, v). CHR ''{'' \<notin> set (py_str v)) (extra_items lead)"
    using assms(2) by (simp add: brace_free_values_def)
  have "placeholders_ok (filter (\<lambda>k. k \<notin> set ?names) ?K3) (replace_extra ?r3 (extra_items lead))"
    using p3 k3 vs by (rule placeholders_ok_replace_extra)
  moreover have "set (filter (\<lambda>k. k \<notin> set ?names) ?K3) = {}"
    by (auto simp add: recognized_keys_def typed_names_def)
  ultimately have "\<not> contains ''{{'' (replace_extra ?r3 (extra_items lead))"
    by (rule placeholders_ok_none)
  moreover have "personalize template lead = Inr (replace_extra ?r3 (extra_items lead))"
    using f c e by (rule personalize_typed_eq)
  ultimately show ?thesis by simp
qed

theorem render_resolves_recognized_witness:
  "typed_lead (lead_of_row (row_dict (sample_rows ! 0) (sample_rows ! 1)))
   \<and> brace_free_values (lead_of_row (row_dict (sample_rows ! 0) (sample_rows ! 1)))
   \<and> open_brace_free_keys (lead_of_row (row_dict (sample_rows ! 0) (sample_rows ! 1)))
   \<and> only_recognized ''Hi {{first_name}} from {{company_name}}''
        (lead_of_row (row_dict (sample_rows ! 0) (sample_rows ! 1)))
   \<and> personalize ''Hi {{first_name}} from {{company_name}}''
        (lead_of_row (row_dict (sample_rows ! 0) (sample_rows ! 1)))
     = Inr ''Hi alice from Acme''
   \<and> \<not> contains ''{{'' ''Hi alice from Acme''"
proof -
  let ?lead = "lead_of_row (row_dict (sample_rows ! 0) (sample_rows ! 1))"
  have l: "?lead = \<lparr>email = PStr ''alice@acme.com'', first_name = PStr ''alice'',
       company_name = PStr ''Acme'',
       extra = Some [(Some ''email'', PStr ''alice@acme.com''),
                     (Some ''first_name'', PStr ''alice''),
                     (Some ''company_name'', PStr ''Acme'')]\<rparr>"
    by (simp add: sample_rows_def lead_of_row_def row_dict_def dict_get_def)
  have h1: "typed_lead ?lead"
    unfolding l by (simp add: typed_lead_def)
  have h2: "brace_free_values ?lead"
    unfolding l by (simp add: brace_free_values_def extra_items_def)
  have h3: "open_brace_free_keys ?lead"
    unfolding l by (simp add: open_brace_free_keys_def extra_items_def)
  have h4: "only_recognized ''Hi {{first_name}} from {{company_name}}'' ?lead"
    unfolding l
    by (simp add: only_recognized_def recognized_keys_def typed_names_def extra_items_def)
  have p: "personalize ''Hi {{first_name}} from {{company_name}}'' ?lead
             = Inr ''Hi alice from Acme''"
    unfolding l by (simp add: personalize_def replace_def)
  show ?thesis
    using h1 h2 h3 h4 p render_resolves_recognized [OF h1 h2 h3 h4]
    by simp
qed

lemma typed_replacements_keep_placeholders:
  assumes vf: "CHR ''{'' \<notin> set f" and vc: "CHR ''{'' \<notin> set c" and ve: "CHR ''{'' \<notin> set e"
    and k0: "\<forall>k\<in>set ks. CHR ''{'' \<notin> set k"
    and p0: "placeholders_ok ks template"
  shows "placeholders_ok
           (removeAll ''email'' (removeAll ''company_name'' (removeAll ''first_name'' ks)))
           (replace (replace (replace template ''{{first_name}}'' f)
              ''{{company_name}}'' c) ''{{email}}'' e)"
proof -
  let ?K1 = "removeAll ''first_name'' ks"
  let ?K2 = "removeAll ''company_name'' ?K1"
  have k1: "\<forall>k\<in>set ?K1. CHR ''{'' \<notin> set k" and k2: "\<forall>k\<in>set ?K2. CHR ''{'' \<notin> set k"
    using k0 by simp_all
  have p1: "placeholders_ok ?K1 (replace template (''{{'' @ ''first_name'' @ ''}}'') f)"
    using vf k0 p0 by (rule placeholders_ok_replace)
  have p2: "placeholders_ok ?K2
      (replace (replace template (''{{'' @ ''first_name'' @ ''}}'') f)
         (''{{'' @ ''company_name'' @ ''}}'') c)"
    using vc k1 p1 by (rule placeholders_ok_replace)
  have "placeholders_ok (removeAll ''email'' ?K2)
      (replace (replace (replace template (''{{'' @ ''first_name'' @ ''}}'') f)
         (''{{'' @ ''company_name'' @ ''}}'') c) (''{{'' @ ''email'' @ ''}}'') e)"
    using ve k2 p2 by (rule placeholders_ok_replace)
  then show ?thesis by simp
qed

text \<open>
  Claim C9, as stated, fails, in two ways. A typed value that is itself the placeholder is
  put in first and then replaced by the extra value: with the first name
  \<^verbatim>\<open>{{first_name}}\<close> the output follows the extra entry (\<^verbatim>\<open>Bob\<close> or \<^verbatim>\<open>Carol\<close>). And
  with an empty first name the template \<^verbatim>\<open>{{{first_name}}{first_name}}\<close> becomes
  \<^verbatim>\<open>{{first_name}}\<close> after the typed replacement, which the extra entry then fills.
  An earlier extra entry whose value is the placeholder has the same effect.
\<close>

theorem extra_value_decides_output:
  "personalize ''Hi {{first_name}}''
     \<lparr>email = PStr ''al@acme.com'', first_name = PStr ''{{first_name}}'',
      company_name = PStr ''Acme'', extra = Some [(Some ''first_name'', PStr ''Bob'')]\<rparr>
     = Inr ''Hi Bob''
   \<and> personalize ''Hi {{first_name}}''
     \<lparr>email = PStr ''al@acme.com'', first_name = PStr ''{{first_name}}'',
      company_name = PStr ''Acme'', extra = Some [(Some ''first_name'', PStr ''Carol'')]\<rparr>
     = Inr ''Hi Carol''
   \<and> personalize ''{{{first_name}}{first_name}}''
     \<lparr>email = PStr ''al@acme.com'', first_name = PStr [],
      company_name = PStr ''Acme'', extra = Some [(Some ''first_name'', PStr ''Bob'')]\<rparr>
     = Inr ''Bob''
   \<and> personalize ''{{{first_name}}{first_name}}''
     \<lparr>email = PStr ''al@acme.com'', first_name = PStr [],
      company_name = PStr ''Acme'', extra = Some [(Some ''first_name'', PStr ''Carol'')]\<rparr>
     = Inr ''Carol''
   \<and> personalize ''{{city}}''
     \<lparr>email = PStr ''al@acme.com'', first_name = PStr ''Al'', company_name = PStr ''Acme'',
      extra = Some [(Some ''city'', PStr ''{{first_name}}''), (Some ''first_name'', PStr ''Bob'')]\<rparr>
     = Inr ''Bob''
   \<and> personalize ''{{city}}''
     \<lparr>email = PStr ''al@acme.com'', first_name = PStr ''Al'', company_name = PStr ''Acme'',
      extra = Some [(Some ''city'', PStr ''{{first_name}}''), (Some ''first_name'', PStr ''Carol'')]\<rparr>
     = Inr ''Carol''"
  by (simp add: personalize_def replace_def)

text \<open>
  Claim C9, amended. The typed fields are replaced first, then the entries of \<open>extra\<close>.
  For every template in which each \<^verbatim>\<open>{{\<close> opens a placeholder \<^verbatim>\<open>{{name}}\<close> whose name holds
  no brace (the names \<open>ks\<close>, recognised by the lead or not), and every lead whose typed
  values and whose extra values under keys other than the typed field names hold no
  \<^verbatim>\<open>{\<close>, an entry of \<open>extra\<close> whose key is a typed field name has no effect on the output,
  whatever its value and whatever the other keys are: the output is the output for the
  lead without those entries, where only the typed field can fill the placeholder.
\<close>

theorem typed_field_wins:
  assumes "brace_free_values (drop_conflicting lead)"
    and "placeholders_ok ks template"
    and "list_all (\<lambda>k. CHR ''{'' \<notin> set k \<and> CHR ''}'' \<notin> set k) ks"
  shows "personalize template lead = personalize template (drop_conflicting lead)"
proof (cases "typed_lead lead")
  case False
  then have "\<not> typed_lead (drop_conflicting lead)"
    by (simp add: typed_lead_def drop_conflicting_def)
  then have "personalize template (drop_conflicting lead) = Inl TypeError"
    by (rule personalize_untyped)
  moreover have "personalize template lead = Inl TypeError"
    using False by (rule personalize_untyped)
  ultimately show ?thesis by simp
next
  case True
  then obtain f c e where f: "first_name lead = PStr f"
    and c: "company_name lead = PStr c" and e: "email lead = PStr e"
    by (rule typed_leadE)
  let ?r3 = "replace (replace (replace template ''{{first_name}}'' f)
              ''{{company_name}}'' c) ''{{email}}'' e"
  let ?K3 = "removeAll ''email'' (removeAll ''company_name'' (removeAll ''first_name'' ks))"
  let ?keep = "\<lambda>(key, v). key_str key \<notin> set typed_names"
  have items: "extra_items (drop_conflicting lead) = filter ?keep (extra_items lead)"
    by (simp add: extra_items_def drop_conflicting_def split: option.splits)
  have k0: "\<forall>k\<in>set ks. CHR ''{'' \<notin> set k"
    using assms(3) by (simp add: list_all_iff)
  have "CHR ''{'' \<notin> set f" and "CHR ''{'' \<notin> set c" and "CHR ''{'' \<notin> set e"
    using assms(1) f c e by (simp_all add: brace_free_values_def drop_conflicting_def)
  then have p3: "placeholders_ok ?K3 ?r3"
    using k0 assms(2) by (rule typed_replacements_keep_placeholders)
  have d3: "set ?K3 \<inter> set typed_names = {}"
    by (auto simp add: typed_names_def)
  have k3: "\<forall>k\<in>set ?K3. CHR ''{'' \<notin> set k \<and> CHR ''}'' \<notin> set k"
    using assms(3) by (simp add: list_all_iff)
  have vs: "list_all (\<lambda>(key, v). CHR ''{'' \<notin> set (py_str v)) (filter ?keep (extra_items lead))"
    using assms(1) by (simp add: brace_free_values_def items)
  have same: "replace_extra ?r3 (extra_items lead)
      = replace_extra ?r3 (filter ?keep (extra_items lead))"
    using p3 d3 k3 vs by (rule replace_extra_drop_conflicting)
  have l: "personalize template lead = Inr (replace_extra ?r3 (extra_items lead))"
    using f c e by (rule personalize_typed_eq)
  have "personalize template (drop_conflicting lead)
      = Inr (replace_extra ?r3 (extra_items (drop_conflicting lead)))"
    by (rule personalize_typed_eq) (simp_all add: drop_conflicting_def f c e)
  with l same items show ?thesis by simp
qed

theorem typed_field_wins_witness:
  "drop_conflicting \<lparr>email = PStr ''al@acme.com'', first_name = PStr ''Al'',
      company_name = PStr ''Acme'',
      extra = Some [(Some ''first_name'', PStr ''Bob''), (Some ''city'', PStr ''Oslo'')]\<rparr>
     = \<lparr>email = PStr ''al@acme.com'', first_name = PStr ''Al'', company_name = PStr ''Acme'',
        extra = Some [(Some ''city'', PStr ''Oslo'')]\<rparr>
   \<and> brace_free_values \<lparr>email = PStr ''al@acme.com'', first_name = PStr ''Al'',
        company_name = PStr ''Acme'', extra = Some [(Some ''city'', PStr ''Oslo'')]\<rparr>
   \<and> placeholders_ok [''first_name'', ''city'', ''frist_name'']
        ''Hi {{first_name}} in {{city}} {{frist_name}}''
   \<and> personalize ''Hi {{first_name}} in {{city}} {{frist_name}}''
       \<lparr>email = PStr ''al@acme.com'', first_name = PStr ''Al'', company_name = PStr ''Acme'',
        extra = Some [(Some ''first_name'', PStr ''Bob''), (Some ''city'', PStr ''Oslo'')]\<rparr>
     = Inr ''Hi Al in Oslo {{frist_name}}''
   \<and> personalize ''Hi {{first_name}} in {{city}} {{frist_name}}''
       \<lparr>email = PStr ''al@acme.com'', first_name = PStr ''Al'', company_name = PStr ''Acme'',
        extra = Some [(Some ''city'', PStr ''Oslo'')]\<rparr>
     = Inr ''Hi Al in Oslo {{frist_name}}''"
proof -
  let ?lead = "\<lparr>email = PStr ''al@acme.com'', first_name = PStr ''Al'',
      company_name = PStr ''Acme'',
      extra = Some [(Some ''first_name'', PStr ''Bob''), (Some ''city'', PStr ''Oslo'')]\<rparr>"
  let ?t = "''Hi {{first_name}} in {{city}} {{frist_name}}''"
  have d: "drop_conflicting ?lead
     = \<lparr>email = PStr ''al@acme.com'', first_name = PStr ''Al'', company_name = PStr ''Acme'',
        extra = Some [(Some ''city'', PStr ''Oslo'')]\<rparr>"
    by (simp add: drop_conflicting_def typed_names_def)
  have h1: "brace_free_values (drop_conflicting ?lead)"
    unfolding d by (simp add: brace_free_values_def extra_items_def)
  have h2: "placeholders_ok [''first_name'', ''city'', ''frist_name''] ?t"
    by simp
  have h3: "list_all (\<lambda>k. CHR ''{'' \<notin> set k \<and> CHR ''}'' \<notin> set k)
              [''first_name'', ''city'', ''frist_name'']"
    by simp
  have p: "personalize ?t (drop_conflicting ?lead) = Inr ''Hi Al in Oslo {{frist_name}}''"
    unfolding d by (simp add: personalize_def replace_def)
  show ?thesis
    using d h1 h2 p typed_field_wins [OF h1 h2 h3]
    by simp
qed

end
